theory Spec2Isabelle
  imports Complex_Main "HOL-Library.AList"
begin

section \<open>The stats package: metric types, tag sets and submetrics\<close>

text \<open>
  A shallow embedding of \<^verbatim>\<open>stats/stats.go\<close>. Go strings and byte slices are
  \<^typ>\<open>string\<close> (a list of 8-bit characters, read as bytes). A value of the Go
  type \<^verbatim>\<open>error\<close> is an \<open>error\<close>: the two variables the package declares, and the
  two kinds of error \<^verbatim>\<open>encoding/json\<close> returns from decoding. A run-time panic is a
  \<open>panic\<close>; a function that can panic returns \<open>panic + 'a\<close>. The method \<^verbatim>\<open>Summary\<close>,
  which only calls the sink, is not embedded.
\<close>

datatype error =
    ErrInvalidMetricType
  | ErrInvalidValueType
  | SyntaxError
  | UnmarshalTypeError

datatype panic =
    NilDereference
  | NilMapAssign
  | IndexOutOfRange

subsection \<open>String constants\<close>

definition dquote :: char where
  "dquote = CHR 0x22"

definition squote :: char where
  "squote = CHR 0x27"

definition counterString :: string where
  "counterString = dquote # ''counter'' @ [dquote]"

definition gaugeString :: string where
  "gaugeString = dquote # ''gauge'' @ [dquote]"

definition trendString :: string where
  "trendString = dquote # ''trend'' @ [dquote]"

definition rateString :: string where
  "rateString = dquote # ''rate'' @ [dquote]"

definition defaultString :: string where
  "defaultString = dquote # ''default'' @ [dquote]"

definition timeString :: string where
  "timeString = dquote # ''time'' @ [dquote]"

definition dataString :: string where
  "dataString = dquote # ''data'' @ [dquote]"

lemmas string_consts =
  dquote_def squote_def counterString_def gaugeString_def trendString_def rateString_def
  defaultString_def timeString_def dataString_def

subsection \<open>MetricType and ValueType\<close>

text \<open>
  Both are named \<^verbatim>\<open>int\<close> types in Go, so a value outside the declared constants is a
  well-formed value of the type. The constants are numbered by \<^verbatim>\<open>iota\<close>.
\<close>

type_synonym MetricType = int
type_synonym ValueType = int

definition Counter :: MetricType where "Counter = 0"
definition Gauge :: MetricType where "Gauge = 1"
definition Trend :: MetricType where "Trend = 2"
definition Rate :: MetricType where "Rate = 3"

definition Default :: ValueType where "Default = 0"
definition Time :: ValueType where "Time = 1"
definition Data :: ValueType where "Data = 2"

lemmas enum_consts =
  Counter_def Gauge_def Trend_def Rate_def Default_def Time_def Data_def

definition MetricType_MarshalJSON :: "MetricType \<Rightarrow> error + string" where
  "MetricType_MarshalJSON t =
     (if t = Counter then Inr counterString
      else if t = Gauge then Inr gaugeString
      else if t = Trend then Inr trendString
      else if t = Rate then Inr rateString
      else Inl ErrInvalidMetricType)"

text \<open>
  The decoders have a pointer receiver. The cell it points to is passed in with its
  current content and returned with its new one, next to the returned error
  (\<open>None\<close> for \<^verbatim>\<open>nil\<close>).
\<close>

definition MetricType_UnmarshalJSON :: "MetricType \<Rightarrow> string \<Rightarrow> error option \<times> MetricType" where
  "MetricType_UnmarshalJSON t data =
     (if data = counterString then (None, Counter)
      else if data = gaugeString then (None, Gauge)
      else if data = trendString then (None, Trend)
      else if data = rateString then (None, Rate)
      else (Some ErrInvalidMetricType, t))"

definition MetricType_String :: "MetricType \<Rightarrow> string" where
  "MetricType_String t =
     (if t = Counter then counterString
      else if t = Gauge then gaugeString
      else if t = Trend then trendString
      else if t = Rate then rateString
      else ''[INVALID]'')"

definition ValueType_MarshalJSON :: "ValueType \<Rightarrow> error + string" where
  "ValueType_MarshalJSON t =
     (if t = Default then Inr defaultString
      else if t = Time then Inr timeString
      else if t = Data then Inr dataString
      else Inl ErrInvalidValueType)"

definition ValueType_UnmarshalJSON :: "ValueType \<Rightarrow> string \<Rightarrow> error option \<times> ValueType" where
  "ValueType_UnmarshalJSON t data =
     (if data = defaultString then (None, Default)
      else if data = timeString then (None, Time)
      else if data = dataString then (None, Data)
      else (Some ErrInvalidValueType, t))"

definition ValueType_String :: "ValueType \<Rightarrow> string" where
  "ValueType_String t =
     (if t = Default then defaultString
      else if t = Time then timeString
      else if t = Data then dataString
      else ''[INVALID]'')"

subsection \<open>Go maps\<close>

text \<open>
  A value of type \<^verbatim>\<open>map[string]string\<close> is \<^verbatim>\<open>nil\<close> (\<open>None\<close>) or a map with its
  entries (\<open>Some kvs\<close>, an association list with one pair for each key). Reading a
  \<^verbatim>\<open>nil\<close> map behaves as reading an empty one; assigning to an entry of a \<^verbatim>\<open>nil\<close> map
  panics. Go iterates a map in no fixed order; \<open>map_range\<close> is the order of the list.
  Maps are modelled by their contents; what a second reference to the same map would
  see after a write is outside the model.
\<close>

type_synonym gomap = "(string \<times> string) list option"

definition map_make :: gomap where
  "map_make = Some []"

definition map_len :: "gomap \<Rightarrow> nat" where
  "map_len m = (case m of None \<Rightarrow> 0 | Some kvs \<Rightarrow> length kvs)"

definition map_range :: "gomap \<Rightarrow> (string \<times> string) list" where
  "map_range m = (case m of None \<Rightarrow> [] | Some kvs \<Rightarrow> kvs)"

definition map_index :: "gomap \<Rightarrow> string \<Rightarrow> string \<times> bool" where
  \<comment> \<open>\<^verbatim>\<open>v, ok := m[k]\<close>\<close>
  "map_index m k =
     (case m of
        None \<Rightarrow> ([], False)
      | Some kvs \<Rightarrow> (case map_of kvs k of None \<Rightarrow> ([], False) | Some v \<Rightarrow> (v, True)))"

definition map_assign :: "gomap \<Rightarrow> string \<Rightarrow> string \<Rightarrow> panic + gomap" where
  \<comment> \<open>\<^verbatim>\<open>m[k] = v\<close>\<close>
  "map_assign m k v =
     (case m of
        None \<Rightarrow> Inl NilMapAssign
      | Some kvs \<Rightarrow> Inr (Some (AList.update k v kvs)))"

subsection \<open>Decoding JSON into a map of strings\<close>

text \<open>
  \<^verbatim>\<open>json.Unmarshal\<close> is Go's standard library, not this package. Its input is given
  here already parsed: \<open>None\<close> for bytes that are not a JSON text, else the JSON value,
  where \<open>JOther\<close> stands for a number, a boolean or an array. Its effect on a target of
  type \<^verbatim>\<open>map[string]string\<close> is written out from the library's documentation:
  invalid input leaves the target alone and returns a syntax error; \<^verbatim>\<open>null\<close> sets the
  map to \<^verbatim>\<open>nil\<close>; for an object, a \<^verbatim>\<open>nil\<close> map is replaced by a new one and any other map
  is reused with its entries kept, and the members are then stored one after the other;
  a value that does not fit its target is skipped and the earliest such mismatch is
  returned after the rest has been decoded. A skipped member is stored with the empty
  string, as is a \<^verbatim>\<open>null\<close> member.
\<close>

datatype json = JNull | JString string | JObject "(string \<times> json) list" | JOther

definition json_member :: "json \<Rightarrow> string \<times> error option" where
  "json_member v =
     (case v of
        JString s \<Rightarrow> (s, None)
      | JNull \<Rightarrow> ([], None)
      | _ \<Rightarrow> ([], Some UnmarshalTypeError))"

fun json_object_into ::
  "(string \<times> json) list \<Rightarrow> (string \<times> string) list \<Rightarrow> error option
    \<Rightarrow> (string \<times> string) list \<times> error option" where
  "json_object_into [] m e = (m, e)"
| "json_object_into ((k, v) # rest) m e =
     (case json_member v of
        (s, e') \<Rightarrow> json_object_into rest (AList.update k s m) (if e = None then e' else e))"

definition json_Unmarshal :: "json option \<Rightarrow> gomap \<Rightarrow> gomap \<times> error option" where
  "json_Unmarshal doc m =
     (case doc of
        None \<Rightarrow> (m, Some SyntaxError)
      | Some JNull \<Rightarrow> (None, None)
      | Some (JObject members) \<Rightarrow>
          (case json_object_into members (case m of None \<Rightarrow> [] | Some kvs \<Rightarrow> kvs) None of
             (kvs', e) \<Rightarrow> (Some kvs', e))
      | Some _ \<Rightarrow> (m, Some UnmarshalTypeError))"

subsection \<open>SampleTags\<close>

text \<open>
  A \<^verbatim>\<open>*SampleTags\<close> is \<^verbatim>\<open>nil\<close> (\<open>None\<close>) or the address of a \<open>SampleTags\<close> object in the
  store. \<^verbatim>\<open>IsEqual\<close> compares the pointers themselves, and \<^verbatim>\<open>MarshalJSON\<close> and
  \<^verbatim>\<open>UnmarshalJSON\<close> write through them, so the objects live in an explicit store: every
  address holds an object, and \<open>nxt\<close> is the next address \<^verbatim>\<open>&SampleTags{...}\<close> takes.
  The field \<open>json\<close> is a byte slice: \<open>None\<close> is \<^verbatim>\<open>nil\<close>.
\<close>

type_synonym addr = nat

record SampleTags =
  tags :: gomap
  json :: "string option"

record store =
  objs :: "addr \<Rightarrow> SampleTags"
  nxt :: addr

definition zero_SampleTags :: SampleTags where
  \<comment> \<open>\<^verbatim>\<open>SampleTags{}\<close>\<close>
  "zero_SampleTags = \<lparr>tags = None, json = None\<rparr>"

definition empty_store :: store where
  "empty_store = \<lparr>objs = (\<lambda>_. zero_SampleTags), nxt = 0\<rparr>"

definition alloc :: "store \<Rightarrow> SampleTags \<Rightarrow> store \<times> addr" where
  "alloc h obj = (h\<lparr>objs := (objs h)(nxt h := obj), nxt := Suc (nxt h)\<rparr>, nxt h)"

definition Get :: "store \<Rightarrow> addr option \<Rightarrow> string \<Rightarrow> string \<times> bool" where
  "Get h st key =
     (case st of
        None \<Rightarrow> ([], False)
      | Some a \<Rightarrow> map_index (tags (objs h a)) key)"

fun IsEqual_loop :: "(string \<times> string) list \<Rightarrow> gomap \<Rightarrow> bool" where
  "IsEqual_loop [] other_tags = True"
| "IsEqual_loop ((k, v) # rest) other_tags =
     (case map_index other_tags k of
        (otherv, ok) \<Rightarrow> if \<not> ok \<or> v \<noteq> otherv then False else IsEqual_loop rest other_tags)"

definition IsEqual :: "store \<Rightarrow> addr option \<Rightarrow> addr option \<Rightarrow> bool" where
  "IsEqual h st other =
     (if st = other then True
      else case (st, other) of
        (Some a, Some b) \<Rightarrow>
          if map_len (tags (objs h a)) \<noteq> map_len (tags (objs h b)) then False
          else IsEqual_loop (map_range (tags (objs h a))) (tags (objs h b))
      | _ \<Rightarrow> False)"

text \<open>
  \<^verbatim>\<open>json.Marshal\<close> is the standard library's encoder; \<^verbatim>\<open>MarshalJSON\<close> takes it as the
  parameter \<open>enc\<close>. The result is the new store and what the method returns.
\<close>

definition MarshalJSON ::
  "(gomap \<Rightarrow> error + string) \<Rightarrow> store \<Rightarrow> addr option \<Rightarrow> store \<times> (error + string)" where
  "MarshalJSON enc h st =
     (case st of
        None \<Rightarrow> (h, Inr ''null'')
      | Some a \<Rightarrow>
          (case json (objs h a) of
             Some cached \<Rightarrow> (h, Inr cached)
           | None \<Rightarrow>
               (case enc (tags (objs h a)) of
                  Inl err \<Rightarrow> (h, Inl err)
                | Inr res \<Rightarrow> (h\<lparr>objs := (objs h)(a := (objs h a)\<lparr>json := Some res\<rparr>)\<rparr>, Inr res))))"

text \<open>
  \<^verbatim>\<open>UnmarshalJSON\<close>: on a \<^verbatim>\<open>nil\<close> receiver the assignment \<^verbatim>\<open>*st = SampleTags{}\<close> writes
  through the \<^verbatim>\<open>nil\<close> pointer, which panics. Otherwise the document is decoded into the
  field \<open>tags\<close>; the result is the new store and the returned error.
\<close>

definition UnmarshalJSON ::
  "store \<Rightarrow> addr option \<Rightarrow> json option \<Rightarrow> panic + (store \<times> error option)" where
  "UnmarshalJSON h st doc =
     (case st of
        None \<Rightarrow> Inl NilDereference
      | Some a \<Rightarrow>
          (case json_Unmarshal doc (tags (objs h a)) of
             (m, err) \<Rightarrow> Inr (h\<lparr>objs := (objs h)(a := (objs h a)\<lparr>tags := m\<rparr>)\<rparr>, err)))"

fun copy_loop :: "(string \<times> string) list \<Rightarrow> gomap \<Rightarrow> panic + gomap" where
  \<comment> \<open>\<^verbatim>\<open>for k, v := range src { dst[k] = v }\<close>\<close>
  "copy_loop [] dst = Inr dst"
| "copy_loop ((k, v) # rest) dst =
     (case map_assign dst k v of Inl p \<Rightarrow> Inl p | Inr dst' \<Rightarrow> copy_loop rest dst')"

definition CloneTags :: "store \<Rightarrow> addr option \<Rightarrow> panic + gomap" where
  "CloneTags h st =
     (case st of
        None \<Rightarrow> Inr map_make
      | Some a \<Rightarrow> copy_loop (map_range (tags (objs h a))) map_make)"

definition NewSampleTags :: "store \<Rightarrow> gomap \<Rightarrow> panic + (store \<times> addr option)" where
  "NewSampleTags h data =
     (case copy_loop (map_range data) map_make of
        Inl p \<Rightarrow> Inl p
      | Inr m \<Rightarrow> (case alloc h \<lparr>tags = m, json = None\<rparr> of (h', a) \<Rightarrow> Inr (h', Some a)))"

text \<open>
  \<^verbatim>\<open>IntoSampleTags\<close> takes a pointer to a variable that holds a map: \<open>None\<close> is the \<^verbatim>\<open>nil\<close>
  pointer, \<open>Some m\<close> a pointer to a variable whose value is \<open>m\<close>. The result is the new
  store, the value the variable holds after the call, and the returned pointer.
\<close>

definition IntoSampleTags ::
  "store \<Rightarrow> gomap option \<Rightarrow> panic + (store \<times> gomap \<times> addr option)" where
  "IntoSampleTags h data =
     (case data of
        None \<Rightarrow> Inl NilDereference
      | Some m \<Rightarrow> (case alloc h \<lparr>tags = m, json = None\<rparr> of (h', a) \<Rightarrow> Inr (h', None, Some a)))"

subsection \<open>The functions of package strings that NewSubmetric calls\<close>

text \<open>
  Written out from Go's standard library. Every call in this file passes a separator of
  one byte, for which \<^verbatim>\<open>strings.Index\<close> is \<^verbatim>\<open>IndexByte\<close> and \<^verbatim>\<open>strings.Count\<close> counts
  the byte; the separator is therefore a \<^typ>\<open>char\<close>. \<open>genSplit\<close> is the loop behind
  \<^verbatim>\<open>Split\<close> and \<^verbatim>\<open>SplitN\<close>: at most \<open>n\<close> pieces, the last one the unsplit rest, and all
  pieces when \<open>n\<close> is negative.
\<close>

definition HasSuffix :: "string \<Rightarrow> string \<Rightarrow> bool" where
  "HasSuffix s suffix =
     (length s \<ge> length suffix \<and> drop (length s - length suffix) s = suffix)"

definition TrimSuffix :: "string \<Rightarrow> string \<Rightarrow> string" where
  "TrimSuffix s suffix =
     (if HasSuffix s suffix then take (length s - length suffix) s else s)"

fun IndexByte :: "string \<Rightarrow> char \<Rightarrow> nat option" where
  "IndexByte [] c = None"
| "IndexByte (x # xs) c = (if x = c then Some 0 else map_option Suc (IndexByte xs c))"

definition CountByte :: "string \<Rightarrow> char \<Rightarrow> nat" where
  "CountByte s c = length (filter (\<lambda>x. x = c) s)"

fun split_loop :: "nat \<Rightarrow> string \<Rightarrow> char \<Rightarrow> string list" where
  \<comment> \<open>the first argument is \<^verbatim>\<open>n - i\<close>, the number of cuts still allowed\<close>
  "split_loop 0 s sep = [s]"
| "split_loop (Suc k) s sep =
     (case IndexByte s sep of
        None \<Rightarrow> [s]
      | Some m \<Rightarrow> take m s # split_loop k (drop (m + 1) s) sep)"

definition genSplit :: "string \<Rightarrow> char \<Rightarrow> int \<Rightarrow> string list" where
  "genSplit s sep n =
     (if n = 0 then []
      else
        let n1 = (if n < 0 then CountByte s sep + 1 else nat n);
            n2 = (if n1 > length s + 1 then length s + 1 else n1)
        in split_loop (n2 - 1) s sep)"

definition SplitN :: "string \<Rightarrow> char \<Rightarrow> int \<Rightarrow> string list" where
  "SplitN s sep n = genSplit s sep n"

definition Split :: "string \<Rightarrow> char \<Rightarrow> string list" where
  "Split s sep = genSplit s sep (- 1)"

text \<open>
  \<^verbatim>\<open>Trim(s, cutset)\<close> for a cutset of ASCII bytes, which is how it is called here: the
  bytes of the cutset are removed at the right end and then at the left end.
\<close>

definition trimRight :: "string \<Rightarrow> string \<Rightarrow> string" where
  "trimRight s cutset = rev (dropWhile (\<lambda>c. c \<in> set cutset) (rev s))"

definition trimLeft :: "string \<Rightarrow> string \<Rightarrow> string" where
  "trimLeft s cutset = dropWhile (\<lambda>c. c \<in> set cutset) s"

definition Trim :: "string \<Rightarrow> string \<Rightarrow> string" where
  "Trim s cutset =
     (if s = [] \<or> cutset = [] then s else trimLeft (trimRight s cutset) cutset)"

text \<open>
  \<^verbatim>\<open>TrimSpace\<close> removes the code points that \<^verbatim>\<open>unicode.IsSpace\<close> accepts from both ends.
  A Go string is a sequence of bytes, so the code points are listed by their UTF-8
  encodings: the six ASCII ones, U+0085, U+00A0, U+1680, U+2000 to U+200A, U+2028,
  U+2029, U+202F, U+205F and U+3000. A byte that starts no such encoding, in
  particular one that is not valid UTF-8, stops the trimming.
\<close>

definition spaces :: "string list" where
  "spaces =
     [[CHR 0x09], [CHR 0x0A], [CHR 0x0B], [CHR 0x0C], [CHR 0x0D], [CHR 0x20],
      [CHR 0xC2, CHR 0x85], [CHR 0xC2, CHR 0xA0],
      [CHR 0xE1, CHR 0x9A, CHR 0x80],
      [CHR 0xE2, CHR 0x80, CHR 0x80], [CHR 0xE2, CHR 0x80, CHR 0x81],
      [CHR 0xE2, CHR 0x80, CHR 0x82], [CHR 0xE2, CHR 0x80, CHR 0x83],
      [CHR 0xE2, CHR 0x80, CHR 0x84], [CHR 0xE2, CHR 0x80, CHR 0x85],
      [CHR 0xE2, CHR 0x80, CHR 0x86], [CHR 0xE2, CHR 0x80, CHR 0x87],
      [CHR 0xE2, CHR 0x80, CHR 0x88], [CHR 0xE2, CHR 0x80, CHR 0x89],
      [CHR 0xE2, CHR 0x80, CHR 0x8A],
      [CHR 0xE2, CHR 0x80, CHR 0xA8], [CHR 0xE2, CHR 0x80, CHR 0xA9],
      [CHR 0xE2, CHR 0x80, CHR 0xAF], [CHR 0xE2, CHR 0x81, CHR 0x9F],
      [CHR 0xE3, CHR 0x80, CHR 0x80]]"

definition space_prefix :: "string \<Rightarrow> nat" where
  \<comment> \<open>the number of bytes of the white space code point at the start, 0 if there is none\<close>
  "space_prefix s =
     (case find (\<lambda>q. take (length q) s = q) spaces of None \<Rightarrow> 0 | Some q \<Rightarrow> length q)"

definition space_suffix :: "string \<Rightarrow> nat" where
  \<comment> \<open>the same at the end\<close>
  "space_suffix s =
     (case find (\<lambda>q. length q \<le> length s \<and> drop (length s - length q) s = q) spaces of
        None \<Rightarrow> 0
      | Some q \<Rightarrow> length q)"

function TrimLeftSpace :: "string \<Rightarrow> string" where
  "TrimLeftSpace s =
     (if space_prefix s = 0 \<or> s = [] then s else TrimLeftSpace (drop (space_prefix s) s))"
  by pat_completeness auto
termination
  by (relation "measure length") auto

function TrimRightSpace :: "string \<Rightarrow> string" where
  "TrimRightSpace s =
     (if space_suffix s = 0 \<or> s = [] then s
      else TrimRightSpace (take (length s - space_suffix s) s))"
  by pat_completeness auto
termination
  by (relation "measure length") auto

declare TrimLeftSpace.simps [simp del] TrimRightSpace.simps [simp del]

definition TrimSpace :: "string \<Rightarrow> string" where
  "TrimSpace s = TrimRightSpace (TrimLeftSpace s)"

subsection \<open>Submetric and Metric\<close>

text \<open>
  The field \<open>Metric\<close> of a submetric is a pointer that nothing in this file sets; it is
  \<open>None\<close> for \<^verbatim>\<open>nil\<close>. The pointers to a \<open>Submetric\<close> and to a \<open>Metric\<close> that the
  constructors return are always fresh, and are modelled by the object they point to.
\<close>

record Submetric =
  Name :: string
  Parent :: string
  Suffix :: string
  Tags :: "addr option"
  Metric :: "addr option"

definition zero_Submetric :: Submetric where
  "zero_Submetric = \<lparr>Name = [], Parent = [], Suffix = [], Tags = None, Metric = None\<rparr>"

definition index :: "'a list \<Rightarrow> nat \<Rightarrow> panic + 'a" where
  \<comment> \<open>\<^verbatim>\<open>xs[i]\<close>\<close>
  "index xs i = (if i < length xs then Inr (xs ! i) else Inl IndexOutOfRange)"

definition quotes :: string where
  "quotes = [dquote, squote]"

fun parse_clauses :: "string list \<Rightarrow> gomap \<Rightarrow> panic + gomap" where
  \<comment> \<open>the loop \<^verbatim>\<open>for _, kv := range kvs\<close> of \<^verbatim>\<open>NewSubmetric\<close>, on the local map \<^verbatim>\<open>tags\<close>\<close>
  "parse_clauses [] m = Inr m"
| "parse_clauses (kv # kvs) m =
     (if kv = [] then parse_clauses kvs m
      else
        let parts = SplitN kv (CHR '':'') 2 in
        case index parts 0 of
          Inl p \<Rightarrow> Inl p
        | Inr part0 \<Rightarrow>
            let key = TrimSpace (Trim part0 quotes) in
            if length parts \<noteq> 2 then
              (case map_assign m key [] of
                 Inl p \<Rightarrow> Inl p
               | Inr m' \<Rightarrow> parse_clauses kvs m')
            else
              (case index parts 1 of
                 Inl p \<Rightarrow> Inl p
               | Inr part1 \<Rightarrow>
                   let val = TrimSpace (Trim part1 quotes) in
                   case map_assign m key val of
                     Inl p \<Rightarrow> Inl p
                   | Inr m' \<Rightarrow> parse_clauses kvs m'))"

definition NewSubmetric :: "store \<Rightarrow> string \<Rightarrow> panic + (store \<times> string \<times> Submetric)" where
  "NewSubmetric h name =
     (let parts = SplitN (TrimSuffix name ''}'') (CHR ''{'') 2 in
      if length parts = 1 then
        (case index parts 0 of
           Inl p \<Rightarrow> Inl p
         | Inr part0 \<Rightarrow> Inr (h, part0, zero_Submetric\<lparr>Name := name\<rparr>))
      else
        (case index parts 1 of
           Inl p \<Rightarrow> Inl p
         | Inr part1 \<Rightarrow>
             (case parse_clauses (Split part1 (CHR '','')) map_make of
                Inl p \<Rightarrow> Inl p
              | Inr m \<Rightarrow>
                  (case index parts 0 of
                     Inl p \<Rightarrow> Inl p
                   | Inr part0 \<Rightarrow>
                       (case IntoSampleTags h (Some m) of
                          Inl p \<Rightarrow> Inl p
                        | Inr (h', _, st) \<Rightarrow>
                            Inr (h', part0,
                                 \<lparr>Name = name, Parent = part0, Suffix = part1,
                                  Tags = st, Metric = None\<rparr>))))))"

text \<open>
  Modelled from the spec: the sink types are declared outside this file. A \<open>Sink\<close> is
  the type of the sink object, each one created empty by \<^verbatim>\<open>New\<close>: the summing sink of a
  counter, the latest-value sink of a gauge, the distribution sink of a trend and the
  non-zero-ratio sink of a rate. The fields \<^verbatim>\<open>Tainted\<close>, \<^verbatim>\<open>Thresholds\<close>, \<^verbatim>\<open>Submetrics\<close> and
  \<^verbatim>\<open>Sub\<close> of a metric, which \<^verbatim>\<open>New\<close> leaves at their zero values, are left out.
\<close>

datatype Sink = CounterSink | GaugeSink | TrendSink | RateSink

record Metric =
  Name :: string
  Type :: MetricType
  Contains :: ValueType
  Sink :: Sink

text \<open>The variadic parameter \<^verbatim>\<open>t ...ValueType\<close> is the list of the arguments passed.\<close>

definition New :: "string \<Rightarrow> MetricType \<Rightarrow> ValueType list \<Rightarrow> Metric option" where
  "New name typ t =
     (let vt = (if length t > 0 then t ! 0 else Default) in
      if typ = Counter then Some \<lparr>Name = name, Type = typ, Contains = vt, Sink = CounterSink\<rparr>
      else if typ = Gauge then Some \<lparr>Name = name, Type = typ, Contains = vt, Sink = GaugeSink\<rparr>
      else if typ = Trend then Some \<lparr>Name = name, Type = typ, Contains = vt, Sink = TrendSink\<rparr>
      else if typ = Rate then Some \<lparr>Name = name, Type = typ, Contains = vt, Sink = RateSink\<rparr>
      else None)"

subsection \<open>Binary64 arithmetic\<close>

text \<open>
  A \<^verbatim>\<open>float64\<close> is a finite value, given by the rational number it stands for, an
  infinity or a NaN. Negative zero is identified with zero; \<^verbatim>\<open>HumanizeValue\<close> converts
  to an integer before it formats, so the sign of a zero never reaches the output. Every
  operation returns the exact result rounded to the nearest representable value, ties to
  the even significand (\<open>round64\<close>): 53 bits of significand, the smallest exponent
  \<open>-1074\<close>, and an infinity from \<open>2 ^ 1024\<close> on.
\<close>

datatype float64 = Finite rat | PInf | NInf | NaN

function bits :: "int \<Rightarrow> int" where
  \<comment> \<open>the number of binary digits of a positive integer\<close>
  "bits n = (if n \<le> 0 then 0 else 1 + bits (n div 2))"
  by pat_completeness auto
termination
  by (relation "measure nat") auto

declare bits.simps [simp del]

definition pow2 :: "int \<Rightarrow> rat" where
  "pow2 k = (if k \<ge> 0 then 2 ^ nat k else 1 / 2 ^ nat (- k))"

definition round_half_even :: "rat \<Rightarrow> int" where
  "round_half_even r =
     (let f = \<lfloor>r\<rfloor>; d = r - of_int f
      in if d < 1 / 2 then f else if d > 1 / 2 then f + 1 else if even f then f else f + 1)"

definition round64 :: "rat \<Rightarrow> float64" where
  \<comment> \<open>\<open>e\<close> is the binary exponent of \<open>a\<close>, \<open>pow2 q\<close> the distance between neighbouring values\<close>
  "round64 x =
     (if x = 0 then Finite 0
      else
        let a = \<bar>x\<bar>;
            e0 = bits (fst (quotient_of a)) - bits (snd (quotient_of a));
            e = (if pow2 e0 \<le> a then e0 else e0 - 1);
            q = max (e - 52) (- 1074);
            r = of_int (round_half_even (a / pow2 q)) * pow2 q
        in if r \<ge> pow2 1024 then (if x > 0 then PInf else NInf)
           else Finite (if x > 0 then r else - r))"

definition f64_mul :: "float64 \<Rightarrow> float64 \<Rightarrow> float64" where
  "f64_mul x y =
     (case (x, y) of
        (Finite a, Finite b) \<Rightarrow> round64 (a * b)
      | (NaN, _) \<Rightarrow> NaN
      | (_, NaN) \<Rightarrow> NaN
      | (Finite a, w) \<Rightarrow>
          if a = 0 then NaN else if (a > 0) = (w = PInf) then PInf else NInf
      | (w, Finite b) \<Rightarrow>
          if b = 0 then NaN else if (b > 0) = (w = PInf) then PInf else NInf
      | (w, w') \<Rightarrow> if w = w' then PInf else NInf)"

definition f64_div :: "float64 \<Rightarrow> float64 \<Rightarrow> float64" where
  "f64_div x y =
     (case (x, y) of
        (Finite a, Finite b) \<Rightarrow>
          if b = 0 then (if a = 0 then NaN else if a > 0 then PInf else NInf)
          else round64 (a / b)
      | (NaN, _) \<Rightarrow> NaN
      | (_, NaN) \<Rightarrow> NaN
      | (Finite a, w) \<Rightarrow> Finite 0
      | (w, Finite b) \<Rightarrow> if (b \<ge> 0) = (w = PInf) then PInf else NInf
      | (w, w') \<Rightarrow> NaN)"

definition f64_of_int :: "int \<Rightarrow> float64" where
  \<comment> \<open>\<^verbatim>\<open>float64(i)\<close>\<close>
  "f64_of_int i = round64 (of_int i)"

text \<open>
  \<^verbatim>\<open>int(x)\<close> for a \<^verbatim>\<open>float64\<close> drops the fraction. \<^verbatim>\<open>int\<close> has 64 bits. For a value that
  \<^verbatim>\<open>int\<close> cannot hold, an infinity or a NaN, the conversion succeeds and Go leaves the
  result to the implementation: it is the parameter \<open>conv\<close>.
\<close>

definition trunc :: "rat \<Rightarrow> int" where
  "trunc r = (if r \<ge> 0 then \<lfloor>r\<rfloor> else - \<lfloor>- r\<rfloor>)"

definition f64_to_int :: "(float64 \<Rightarrow> int) \<Rightarrow> float64 \<Rightarrow> int" where
  "f64_to_int conv x =
     (case x of
        Finite r \<Rightarrow>
          if - (2 ^ 63) \<le> trunc r \<and> trunc r < 2 ^ 63 then trunc r else conv x
      | _ \<Rightarrow> conv x)"

text \<open>
  \<^verbatim>\<open>strconv.FormatFloat(x, 'f', prec, 64)\<close>, from Go's standard library: the decimal
  expansion of the exact value with \<open>prec\<close> digits after the point, rounded to the
  nearest, ties to the even digit.
\<close>

function digits :: "int \<Rightarrow> string" where
  "digits n =
     (if n < 10 then [''0123456789'' ! nat n]
      else digits (n div 10) @ [''0123456789'' ! nat (n mod 10)])"
  by pat_completeness auto
termination
  by (relation "measure nat") auto

declare digits.simps [simp del]

definition fixed_point :: "int \<Rightarrow> nat \<Rightarrow> string" where
  \<comment> \<open>\<open>n / 10 ^ prec\<close> for \<open>n \<ge> 0\<close>, with \<open>prec\<close> digits after the point\<close>
  "fixed_point n prec =
     (if prec = 0 then digits n
      else
        let frac = digits (n mod 10 ^ prec)
        in digits (n div 10 ^ prec) @ ''.'' @ replicate (prec - length frac) (CHR ''0'') @ frac)"

definition FormatFloat_f :: "float64 \<Rightarrow> nat \<Rightarrow> string" where
  "FormatFloat_f x prec =
     (case x of
        Finite r \<Rightarrow>
          (if r < 0 then ''-'' else []) @ fixed_point (round_half_even (\<bar>r\<bar> * 10 ^ prec)) prec
      | PInf \<Rightarrow> ''+Inf''
      | NInf \<Rightarrow> ''-Inf''
      | NaN \<Rightarrow> ''NaN'')"

subsection \<open>HumanizeValue\<close>

text \<open>
  The functions \<^verbatim>\<open>HumanizeValue\<close> calls that are not in this file are parameters, in the
  record \<open>externals\<close>: the conversion of a value that \<^verbatim>\<open>int\<close> cannot hold, \<^verbatim>\<open>ToD\<close>, the
  method \<^verbatim>\<open>String\<close> of a duration, and \<^verbatim>\<open>humanize.Bytes(uint64(v))\<close> and
  \<^verbatim>\<open>humanize.Ftoa(v)\<close> as functions of \<open>v\<close>. A duration is a number of nanoseconds; the
  remainders below are taken of positive durations only.
\<close>

record externals =
  conv_int :: "float64 \<Rightarrow> int"
  ToD :: "float64 \<Rightarrow> int"
  Duration_String :: "int \<Rightarrow> string"
  humanize_Bytes :: "float64 \<Rightarrow> string"
  humanize_Ftoa :: "float64 \<Rightarrow> string"

definition Nanosecond :: int where "Nanosecond = 1"
definition Microsecond :: int where "Microsecond = 1000 * Nanosecond"
definition Millisecond :: int where "Millisecond = 1000 * Microsecond"
definition Second :: int where "Second = 1000 * Millisecond"
definition Minute :: int where "Minute = 60 * Second"

lemmas duration_consts =
  Nanosecond_def Microsecond_def Millisecond_def Second_def Minute_def

definition hundred :: float64 where
  "hundred = Finite 100"

definition HumanizeValue :: "externals \<Rightarrow> Metric option \<Rightarrow> float64 \<Rightarrow> panic + string" where
  "HumanizeValue ext m v =
     (case m of
        None \<Rightarrow> Inl NilDereference
      | Some mt \<Rightarrow>
          if Type mt = Rate then
            Inr (FormatFloat_f
                   (f64_div
                      (f64_of_int (f64_to_int (conv_int ext) (f64_mul (f64_mul v hundred) hundred)))
                      hundred) 2
                 @ ''%'')
          else if Contains mt = Time then
            (let d = ToD ext v;
                 d' = (if d > Minute then d - d mod (1 * Second)
                       else if d > Second then d - d mod (10 * Millisecond)
                       else if d > Millisecond then d - d mod (10 * Microsecond)
                       else if d > Microsecond then d - d mod (10 * Nanosecond)
                       else d)
             in Inr (Duration_String ext d'))
          else if Contains mt = Data then Inr (humanize_Bytes ext v)
          else Inr (humanize_Ftoa ext v))"

subsection \<open>The rate percentage, in the words of the specification\<close>

text \<open>
  The specification's rendering of a rate \<open>v\<close>: the percentage \<open>100 * v\<close> cut off, not
  rounded, after two decimal places. It follows the specification's words, not the
  code, and works on the exact number.
\<close>

definition spec_truncated_percent :: "rat \<Rightarrow> string" where
  "spec_truncated_percent v =
     (let k = trunc (v * 100 * 100)
      in (if k < 0 then ''-'' else []) @ fixed_point \<bar>k\<bar> 2 @ ''%'')"

subsection \<open>The filter syntax, in the words of the specification\<close>

text \<open>
  These definitions follow the specification's description of a filter body, not the
  code: the body is cut at every comma and the empty clauses are dropped; a clause is
  cut at its first colon into key and value, and without a colon it is a key with the
  empty value; key and value are trimmed; of two clauses with the same key the later
  one counts. How key and value are trimmed is the parameter \<open>trim\<close>. \<open>code_trim\<close> is
  short for the trimming \<^verbatim>\<open>NewSubmetric\<close> applies: \<^verbatim>\<open>strings.Trim\<close> with the two quoting
  characters and then \<^verbatim>\<open>strings.TrimSpace\<close>.
\<close>

fun spec_split :: "char \<Rightarrow> string \<Rightarrow> string list" where
  "spec_split c [] = [[]]"
| "spec_split c (x # xs) =
     (if x = c then [] # spec_split c xs
      else (case spec_split c xs of [] \<Rightarrow> [[x]] | p # ps \<Rightarrow> (x # p) # ps))"

definition spec_clause :: "(string \<Rightarrow> string) \<Rightarrow> string \<Rightarrow> string \<times> string" where
  "spec_clause trim c =
     (if CHR '':'' \<in> set c
      then (trim (takeWhile (\<lambda>x. x \<noteq> CHR '':'') c),
            trim (tl (dropWhile (\<lambda>x. x \<noteq> CHR '':'') c)))
      else (trim c, []))"

definition spec_clauses :: "string \<Rightarrow> string list" where
  "spec_clauses body = filter (\<lambda>c. c \<noteq> []) (spec_split (CHR '','') body)"

definition spec_tags :: "(string \<Rightarrow> string) \<Rightarrow> string \<Rightarrow> (string \<rightharpoonup> string)" where
  "spec_tags trim body = map_of (rev (map (spec_clause trim) (spec_clauses body)))"

abbreviation code_trim :: "string \<Rightarrow> string" where
  "code_trim s \<equiv> TrimSpace (Trim s quotes)"

section \<open>Properties of the enumerations\<close>

text \<open>
  C6: for each of the four metric types and each of the three value types,
  \<^verbatim>\<open>MarshalJSON\<close> produces bytes, and \<^verbatim>\<open>UnmarshalJSON\<close> on those bytes returns no
  error and stores the original value, whatever the target held before.
\<close>

theorem enum_json_roundtrip:
  "(t \<in> {Counter, Gauge, Trend, Rate} \<longrightarrow>
      (\<exists>bs. MetricType_MarshalJSON t = Inr bs \<and> MetricType_UnmarshalJSON t0 bs = (None, t)))
   \<and> (v \<in> {Default, Time, Data} \<longrightarrow>
      (\<exists>bs. ValueType_MarshalJSON v = Inr bs \<and> ValueType_UnmarshalJSON v0 bs = (None, v)))"
  by (auto simp: MetricType_MarshalJSON_def MetricType_UnmarshalJSON_def
      ValueType_MarshalJSON_def ValueType_UnmarshalJSON_def enum_consts string_consts)

theorem enum_json_roundtrip_witness:
  "Trend \<in> {Counter, Gauge, Trend, Rate}
   \<and> (\<exists>bs. MetricType_MarshalJSON Trend = Inr bs \<and> MetricType_UnmarshalJSON Counter bs = (None, Trend))
   \<and> Data \<in> {Default, Time, Data}
   \<and> (\<exists>bs. ValueType_MarshalJSON Data = Inr bs \<and> ValueType_UnmarshalJSON Default bs = (None, Data))"
  using enum_json_roundtrip [of Trend Counter Data Default] by simp

text \<open>
  C7: decoding a metric type fails, with \<open>ErrInvalidMetricType\<close>, exactly on the byte
  strings other than the four literals, and then leaves the target as it was; decoding a
  value type fails, with \<open>ErrInvalidValueType\<close>, exactly on the byte strings other than
  the three literals; the two errors are distinct and no other error is returned; and
  \<^verbatim>\<open>MarshalJSON\<close> on a number outside the enumeration returns the same error of its
  type and no bytes.
\<close>

theorem enum_json_errors:
  "(fst (MetricType_UnmarshalJSON t0 d) =
      (if d \<in> {counterString, gaugeString, trendString, rateString} then None
       else Some ErrInvalidMetricType))
   \<and> (d \<notin> {counterString, gaugeString, trendString, rateString} \<longrightarrow>
        snd (MetricType_UnmarshalJSON t0 d) = t0)
   \<and> (fst (ValueType_UnmarshalJSON v0 d) =
      (if d \<in> {defaultString, timeString, dataString} then None
       else Some ErrInvalidValueType))
   \<and> (d \<notin> {defaultString, timeString, dataString} \<longrightarrow>
        snd (ValueType_UnmarshalJSON v0 d) = v0)
   \<and> ErrInvalidMetricType \<noteq> ErrInvalidValueType
   \<and> (t \<notin> {Counter, Gauge, Trend, Rate} \<longrightarrow> MetricType_MarshalJSON t = Inl ErrInvalidMetricType)
   \<and> (v \<notin> {Default, Time, Data} \<longrightarrow> ValueType_MarshalJSON v = Inl ErrInvalidValueType)"
  by (simp add: MetricType_MarshalJSON_def MetricType_UnmarshalJSON_def
      ValueType_MarshalJSON_def ValueType_UnmarshalJSON_def)

theorem enum_json_errors_witness:
  "fst (MetricType_UnmarshalJSON Gauge ''counter'') = Some ErrInvalidMetricType
   \<and> snd (MetricType_UnmarshalJSON Gauge ''counter'') = Gauge
   \<and> fst (ValueType_UnmarshalJSON Time ''counter'') = Some ErrInvalidValueType
   \<and> snd (ValueType_UnmarshalJSON Time ''counter'') = Time
   \<and> MetricType_MarshalJSON 4 = Inl ErrInvalidMetricType
   \<and> ValueType_MarshalJSON (- 1) = Inl ErrInvalidValueType"
  using enum_json_errors [of Gauge "''counter''" Time 4 "- 1"]
  by (simp add: enum_consts string_consts)

section \<open>Properties of tag sets\<close>

text \<open>
  C1, as the code has it: \<^verbatim>\<open>IsEqual\<close> between two unset tag sets is true, and between an
  unset tag set and any tag set that is not unset it is false, in either order, also
  when that other tag set has no entries.
\<close>

theorem IsEqual_nil:
  "IsEqual h None None \<and> \<not> IsEqual h None (Some b) \<and> \<not> IsEqual h (Some a) None"
  by (simp add: IsEqual_def)

text \<open>
  The claim as written fails: the tag set at address 0 has no entries, and comparing
  the unset tag set with it gives false.
\<close>

theorem IsEqual_nil_vs_empty_counterexample:
  "map_len (tags (objs (empty_store\<lparr>objs := (objs empty_store)(0 := \<lparr>tags = Some [], json = None\<rparr>)\<rparr>) 0)) = 0
   \<and> IsEqual (empty_store\<lparr>objs := (objs empty_store)(0 := \<lparr>tags = Some [], json = None\<rparr>)\<rparr>)
        None (Some 0) = False"
  by (simp add: IsEqual_def map_len_def)

lemma json_object_into_strings:
  "json_object_into (map (\<lambda>(k, s). (k, JString s)) kvs) m None
     = (fold (\<lambda>(k, s). AList.update k s) kvs m, None)"
  by (induction kvs arbitrary: m) (auto simp: json_member_def)

lemma map_of_fold_update:
  "map_of (fold (\<lambda>(k, s). AList.update k s) kvs m) = map_of m ++ map_of (rev kvs)"
  by (induction kvs arbitrary: m) (auto simp: update_conv')

lemma distinct_fold_update:
  "distinct (map fst m) \<Longrightarrow> distinct (map fst (fold (\<lambda>(k, s). AList.update k s) kvs m))"
  by (induction kvs arbitrary: m) (auto simp: distinct_update)

text \<open>
  C2, as the code has it: \<^verbatim>\<open>UnmarshalJSON\<close> on a tag set at address \<open>a\<close>, with a JSON object
  whose members \<open>kvs\<close> are strings, returns no error and merges the object into the tag
  set. Afterwards the tag set holds every pair of the object, the last one for a
  repeated key, and every earlier key that the object does not mention, with the value
  it had. Nothing else in the store changes.
\<close>

theorem UnmarshalJSON_merges:
  "\<exists>merged.
     UnmarshalJSON h (Some a) (Some (JObject (map (\<lambda>(k, s). (k, JString s)) kvs)))
       = Inr (h\<lparr>objs := (objs h)(a := (objs h a)\<lparr>tags := Some merged\<rparr>)\<rparr>, None)
     \<and> map_of merged = map_of (map_range (tags (objs h a))) ++ map_of (rev kvs)"
proof (intro exI conjI)
  show "UnmarshalJSON h (Some a) (Some (JObject (map (\<lambda>(k, s). (k, JString s)) kvs)))
       = Inr (h\<lparr>objs := (objs h)(a := (objs h a)\<lparr>tags :=
            Some (fold (\<lambda>(k, s). AList.update k s) kvs (map_range (tags (objs h a))))\<rparr>)\<rparr>, None)"
    by (simp add: UnmarshalJSON_def json_Unmarshal_def json_object_into_strings
        map_range_def split: option.splits)
  show "map_of (fold (\<lambda>(k, s). AList.update k s) kvs (map_range (tags (objs h a))))
       = map_of (map_range (tags (objs h a))) ++ map_of (rev kvs)"
    by (rule map_of_fold_update)
qed

theorem UnmarshalJSON_merges_witness:
  "\<exists>merged.
     UnmarshalJSON (empty_store\<lparr>objs := (objs empty_store)(0 := \<lparr>tags = Some [(''a'', ''1''), (''b'', ''2'')], json = None\<rparr>)\<rparr>)
        (Some 0) (Some (JObject [(''b'', JString ''3''), (''c'', JString ''4'')]))
       = Inr (empty_store\<lparr>objs := (objs empty_store)(0 := \<lparr>tags = Some merged, json = None\<rparr>)\<rparr>, None)
     \<and> map_of merged = [''a'' \<mapsto> ''1'', ''b'' \<mapsto> ''3'', ''c'' \<mapsto> ''4'']"
  using UnmarshalJSON_merges [of "empty_store\<lparr>objs := (objs empty_store)(0 := \<lparr>tags = Some [(''a'', ''1''), (''b'', ''2'')], json = None\<rparr>)\<rparr>"
      0 "[(''b'', ''3''), (''c'', ''4'')]"]
  by (auto simp: map_range_def fun_eq_iff map_add_def)

text \<open>
  The claim as written fails: the tag set holds the key \<open>a\<close>, the object only the key
  \<open>b\<close>, and after the call the tag set holds both.
\<close>

theorem UnmarshalJSON_keeps_prior_counterexample:
  "UnmarshalJSON (empty_store\<lparr>objs := (objs empty_store)(0 := \<lparr>tags = Some [(''a'', ''1'')], json = None\<rparr>)\<rparr>)
      (Some 0) (Some (JObject [(''b'', JString ''2'')]))
   = Inr (empty_store\<lparr>objs := (objs empty_store)(0 := \<lparr>tags = Some [(''a'', ''1''), (''b'', ''2'')], json = None\<rparr>)\<rparr>, None)"
  by (simp add: UnmarshalJSON_def json_Unmarshal_def json_member_def)

text \<open>
  C3: on an unset receiver \<^verbatim>\<open>UnmarshalJSON\<close> does not return: for every store and every
  input it panics on the write through the \<^verbatim>\<open>nil\<close> pointer.
\<close>

theorem UnmarshalJSON_nil_receiver_panics:
  "UnmarshalJSON h None doc = Inl NilDereference"
  by (simp add: UnmarshalJSON_def)

text \<open>The other four operations do return on an unset receiver, with the results the
  package documents.\<close>

lemma nil_receiver_other_operations:
  "Get h None key = ([], False)"
  "MarshalJSON enc h None = (h, Inr ''null'')"
  "CloneTags h None = Inr (Some [])"
  "IsEqual h None other = (other = None)"
  by (auto simp: Get_def MarshalJSON_def CloneTags_def map_make_def IsEqual_def
      split: option.splits)

text \<open>
  C10: \<^verbatim>\<open>IntoSampleTags\<close> on a pointer to a variable that holds a map which is not \<^verbatim>\<open>nil\<close>,
  with the entries \<open>kvs\<close>, does not panic; after the call the variable holds \<^verbatim>\<open>nil\<close>, and the
  returned pointer is the address of a new tag set whose map has exactly the entries
  \<open>kvs\<close> and whose cache is empty.
\<close>

theorem IntoSampleTags_consumes:
  "IntoSampleTags h (Some (Some kvs)) =
     Inr (h\<lparr>objs := (objs h)(nxt h := \<lparr>tags = Some kvs, json = None\<rparr>), nxt := Suc (nxt h)\<rparr>,
          None, Some (nxt h))"
  by (simp add: IntoSampleTags_def alloc_def)

section \<open>Properties of the string functions\<close>

lemma IndexByte_None: "IndexByte s c = None \<longleftrightarrow> c \<notin> set s"
  by (induction s) auto

lemma IndexByte_absent: "c \<notin> set s \<Longrightarrow> IndexByte s c = None"
  by (simp add: IndexByte_None)

lemma IndexByte_mem: "IndexByte s c = Some m \<Longrightarrow> c \<in> set s"
  using IndexByte_None [of s c] by auto

lemma IndexByte_Some:
  "IndexByte s c = Some m \<Longrightarrow>
     take m s = takeWhile (\<lambda>x. x \<noteq> c) s \<and> drop (m + 1) s = tl (dropWhile (\<lambda>x. x \<noteq> c) s)"
  by (induction s arbitrary: m) (auto split: if_splits)

lemma split_loop_absent: "c \<notin> set s \<Longrightarrow> split_loop k s c = [s]"
  by (cases k) (simp_all add: IndexByte_absent)

lemma split_loop_one:
  "split_loop (Suc 0) s c =
     (if c \<in> set s then [takeWhile (\<lambda>x. x \<noteq> c) s, tl (dropWhile (\<lambda>x. x \<noteq> c) s)] else [s])"
proof (cases "IndexByte s c")
  case None
  then have "c \<notin> set s" by (simp add: IndexByte_None)
  with None show ?thesis by simp
next
  case (Some m)
  then have "c \<in> set s" by (rule IndexByte_mem)
  with Some IndexByte_Some [OF Some] show ?thesis by simp
qed

lemma SplitN_2:
  "SplitN s c 2 =
     (if c \<in> set s then [takeWhile (\<lambda>x. x \<noteq> c) s, tl (dropWhile (\<lambda>x. x \<noteq> c) s)] else [s])"
proof (cases s)
  case Nil
  then show ?thesis by (simp add: SplitN_def genSplit_def)
next
  case (Cons x xs)
  then have "SplitN s c 2 = split_loop (Suc 0) s c"
    by (simp add: SplitN_def genSplit_def Let_def)
  then show ?thesis by (simp only: split_loop_one)
qed

lemma spec_split_absent: "c \<notin> set s \<Longrightarrow> spec_split c s = [s]"
  by (induction s) auto

lemma spec_split_cut: "c \<notin> set p \<Longrightarrow> spec_split c (p @ c # rest) = p # spec_split c rest"
  by (induction p) auto

lemma split_loop_spec: "CountByte s c \<le> k \<Longrightarrow> split_loop k s c = spec_split c s"
proof (induction k arbitrary: s)
  case 0
  then have "c \<notin> set s" by (auto simp: CountByte_def filter_empty_conv)
  then show ?case by (simp add: spec_split_absent)
next
  case (Suc k)
  show ?case
  proof (cases "IndexByte s c")
    case None
    then have "c \<notin> set s" by (simp add: IndexByte_None)
    then show ?thesis using spec_split_absent [of c s] split_loop_absent [of c s "Suc k"] by simp
  next
    case (Some m)
    let ?p = "takeWhile (\<lambda>x. x \<noteq> c) s" and ?r = "tl (dropWhile (\<lambda>x. x \<noteq> c) s)"
    from Some have tk: "take m s = ?p" and dr: "drop (m + 1) s = ?r"
      using IndexByte_Some by blast+
    from Some have mem: "c \<in> set s" using IndexByte_None [of s c] by auto
    then have "dropWhile (\<lambda>x. x \<noteq> c) s \<noteq> []" by auto
    moreover have "hd (dropWhile (\<lambda>x. x \<noteq> c) s) = c"
      using mem hd_dropWhile [of "\<lambda>x. x \<noteq> c" s] by auto
    ultimately have dw: "dropWhile (\<lambda>x. x \<noteq> c) s = c # ?r"
      by (cases "dropWhile (\<lambda>x. x \<noteq> c) s") auto
    have s_eq: "s = ?p @ c # ?r"
      using takeWhile_dropWhile_id [of "\<lambda>x. x \<noteq> c" s] dw by simp
    have notin: "c \<notin> set ?p" by (auto dest: set_takeWhileD)
    have "CountByte s c = CountByte (?p @ c # ?r) c" using s_eq by simp
    also have "\<dots> = Suc (CountByte ?r c)"
      using notin by (auto simp: CountByte_def filter_empty_conv)
    finally have "CountByte ?r c \<le> k" using Suc.prems by simp
    then have "split_loop k ?r c = spec_split c ?r" by (rule Suc.IH)
    moreover have "spec_split c s = ?p # spec_split c ?r"
      using spec_split_cut [OF notin, of ?r] s_eq by simp
    ultimately show ?thesis using Some tk dr by simp
  qed
qed

lemma CountByte_le: "CountByte s c \<le> length s"
  by (simp add: CountByte_def)

lemma Split_spec: "Split s c = spec_split c s"
proof -
  have "\<not> length s + 1 < CountByte s c + 1" using CountByte_le [of s c] by simp
  then have "Split s c = split_loop (CountByte s c) s c"
    by (simp add: Split_def genSplit_def Let_def)
  then show ?thesis by (simp add: split_loop_spec)
qed


section \<open>Properties of submetric parsing\<close>

lemma parse_clause_step:
  "c \<noteq> [] \<Longrightarrow>
   parse_clauses (c # cs) (Some kvs) =
     parse_clauses cs (Some (AList.update (fst (spec_clause code_trim c)) (snd (spec_clause code_trim c)) kvs))"
  by (simp add: SplitN_2 index_def map_assign_def spec_clause_def Let_def)

lemma parse_clauses_fold:
  "parse_clauses cs (Some kvs) =
     Inr (Some (fold (\<lambda>(k, v). AList.update k v)
            (map (spec_clause code_trim) (filter (\<lambda>c. c \<noteq> []) cs)) kvs))"
proof (induction cs arbitrary: kvs)
  case Nil
  show ?case by simp
next
  case (Cons c cs)
  show ?case
  proof (cases "c = []")
    case True
    then show ?thesis using Cons.IH by simp
  next
    case False
    have "parse_clauses (c # cs) (Some kvs) =
        parse_clauses cs (Some (AList.update (fst (spec_clause code_trim c)) (snd (spec_clause code_trim c)) kvs))"
      using False by (rule parse_clause_step)
    then show ?thesis
      using False by (simp add: Cons.IH case_prod_beta)
  qed
qed

lemma HasSuffix_byte: "HasSuffix s [c] \<longleftrightarrow> s \<noteq> [] \<and> last s = c"
  by (cases s rule: rev_cases) (auto simp: HasSuffix_def)

lemma TrimSuffix_byte:
  "TrimSuffix s [c] = (if s \<noteq> [] \<and> last s = c then butlast s else s)"
  by (simp add: TrimSuffix_def HasSuffix_byte butlast_conv_take)

lemma NewSubmetric_plain:
  assumes "CHR ''{'' \<notin> set name"
  shows "NewSubmetric h name =
     Inr (h, (if name \<noteq> [] \<and> last name = CHR ''}'' then butlast name else name),
          \<lparr>Submetric.Name = name, Parent = [], Suffix = [], Tags = None, Metric = None\<rparr>)"
proof -
  let ?s = "TrimSuffix name ''}''"
  have "CHR ''{'' \<notin> set ?s"
    using assms by (auto simp: TrimSuffix_byte dest: in_set_butlastD)
  then have "SplitN ?s (CHR ''{'') 2 = [?s]" by (simp add: SplitN_2)
  then show ?thesis
    by (simp add: NewSubmetric_def index_def zero_Submetric_def TrimSuffix_byte)
qed

lemma NewSubmetric_filter_aux:
  assumes "CHR ''{'' \<notin> set name"
  shows "NewSubmetric h (name @ ''{'' @ body @ ''}'') =
     Inr (h\<lparr>objs := (objs h)(nxt h := \<lparr>tags = Some (fold (\<lambda>(k, v). AList.update k v)
                (map (spec_clause code_trim) (spec_clauses body)) []), json = None\<rparr>),
            nxt := Suc (nxt h)\<rparr>,
          name,
          \<lparr>Submetric.Name = name @ ''{'' @ body @ ''}'', Parent = name, Suffix = body,
           Tags = Some (nxt h), Metric = None\<rparr>)"
proof -
  let ?s = "name @ CHR ''{'' # body"
  have ts: "TrimSuffix (name @ CHR ''{'' # body @ ''}'') ''}'' = ?s"
    by (simp add: TrimSuffix_byte butlast_append)
  have tw: "takeWhile (\<lambda>x. x \<noteq> CHR ''{'') ?s = name"
    using assms by (auto simp: takeWhile_tail)
  have dw: "dropWhile (\<lambda>x. x \<noteq> CHR ''{'') ?s = CHR ''{'' # body"
    using assms by (auto simp: dropWhile_append3)
  have sp: "SplitN ?s (CHR ''{'') 2 = [name, body]"
    by (simp add: SplitN_2 tw dw del: takeWhile_append2 dropWhile_append2)
  show ?thesis
    by (simp add: NewSubmetric_def ts sp index_def Split_spec map_make_def parse_clauses_fold
        IntoSampleTags_def alloc_def spec_clauses_def)
qed

lemma space_prefix_append: "q \<in> set spaces \<Longrightarrow> space_prefix (q @ rest) = length q"
  unfolding spaces_def space_prefix_def
  by (simp, elim disjE; simp)

lemma spaces_nonempty: "q \<in> set spaces \<Longrightarrow> q \<noteq> []"
  by (auto simp: spaces_def)

lemma TrimLeftSpace_append: "q \<in> set spaces \<Longrightarrow> TrimLeftSpace (q @ rest) = TrimLeftSpace rest"
  by (subst TrimLeftSpace.simps) (simp add: space_prefix_append spaces_nonempty)

lemma TrimLeftSpace_concat: "set qs \<subseteq> set spaces \<Longrightarrow> TrimLeftSpace (concat qs) = []"
proof (induction qs)
  case Nil
  show ?case by (subst TrimLeftSpace.simps) simp
next
  case (Cons q qs)
  then show ?case by (simp add: TrimLeftSpace_append)
qed

lemma TrimSpace_concat: "set qs \<subseteq> set spaces \<Longrightarrow> TrimSpace (concat qs) = []"
  unfolding TrimSpace_def
  by (simp add: TrimLeftSpace_concat) (subst TrimRightSpace.simps, simp)

lemma spaces_bytes:
  "q \<in> set spaces \<Longrightarrow> CHR '':'' \<notin> set q \<and> dquote \<notin> set q \<and> squote \<notin> set q"
  by (auto simp: spaces_def dquote_def squote_def)

lemma Trim_no_cut:
  assumes "set s \<inter> set cutset = {}"
  shows "Trim s cutset = s"
proof -
  have "dropWhile (\<lambda>c. c \<in> set cutset) (rev s) = rev s"
    using assms by (intro dropWhile_id) auto
  moreover have "dropWhile (\<lambda>c. c \<in> set cutset) s = s"
    using assms by (intro dropWhile_id) auto
  ultimately show ?thesis by (simp add: Trim_def trimLeft_def trimRight_def)
qed

lemma spec_clause_spaces:
  assumes "set qs \<subseteq> set spaces"
  shows "spec_clause code_trim (concat qs) = ([], [])"
proof -
  have "CHR '':'' \<notin> set (concat qs)" using assms spaces_bytes by auto
  moreover have "set (concat qs) \<inter> set quotes = {}"
    using assms spaces_bytes by (auto simp: quotes_def)
  ultimately show ?thesis
    using assms by (simp add: spec_clause_def Trim_no_cut TrimSpace_concat)
qed

text \<open>
  What \<^verbatim>\<open>NewSubmetric\<close> does with a filter: for an input \<open>name{body}\<close>, where \<open>name\<close> has no
  opening brace, it does not panic and returns \<open>name\<close> as the parent name and a
  submetric with the input as its name, \<open>name\<close> as its parent, \<open>body\<close> as its suffix and a
  new tag set. The map of that tag set has one entry for each key and is the one the
  specification describes, with \<open>code_trim\<close> as the trimming: the body cut at the commas,
  the empty clauses skipped, each clause cut at its first colon, a clause with no colon
  taken as a key with the empty value, the last clause counting for a repeated key. A
  clause that is made of white space only has the empty key and the empty value.
\<close>

lemma NewSubmetric_filter_result:
  assumes "CHR ''{'' \<notin> set name"
  shows "(\<exists>kvs.
     NewSubmetric h (name @ ''{'' @ body @ ''}'') =
       Inr (h\<lparr>objs := (objs h)(nxt h := \<lparr>tags = Some kvs, json = None\<rparr>), nxt := Suc (nxt h)\<rparr>,
            name,
            \<lparr>Submetric.Name = name @ ''{'' @ body @ ''}'', Parent = name, Suffix = body,
             Tags = Some (nxt h), Metric = None\<rparr>)
     \<and> distinct (map fst kvs)
     \<and> map_of kvs = spec_tags code_trim body)
   \<and> (set qs \<subseteq> set spaces \<longrightarrow> spec_clause code_trim (concat qs) = ([], []))"
proof (intro exI conjI)
  let ?kvs = "fold (\<lambda>(k, v). AList.update k v) (map (spec_clause code_trim) (spec_clauses body)) []"
  show "NewSubmetric h (name @ ''{'' @ body @ ''}'') =
       Inr (h\<lparr>objs := (objs h)(nxt h := \<lparr>tags = Some ?kvs, json = None\<rparr>), nxt := Suc (nxt h)\<rparr>,
            name,
            \<lparr>Submetric.Name = name @ ''{'' @ body @ ''}'', Parent = name, Suffix = body,
             Tags = Some (nxt h), Metric = None\<rparr>)"
    using assms by (rule NewSubmetric_filter_aux)
  show "distinct (map fst ?kvs)" by (rule distinct_fold_update) simp
  show "map_of ?kvs = spec_tags code_trim body"
    by (simp add: map_of_fold_update spec_tags_def rev_map)
  show "set qs \<subseteq> set spaces \<longrightarrow> spec_clause code_trim (concat qs) = ([], [])"
    by (simp add: spec_clause_spaces)
qed

text \<open>The three inputs the specification lists as test cases, and one with empty,
  repeated and blank clauses.\<close>

lemma NewSubmetric_listed_inputs:
  "map_sum id (\<lambda>(h, p, sm). (p, Tags sm, objs h 0))
      (NewSubmetric empty_store ''errors'') = Inr (''errors'', None, zero_SampleTags)"
  "map_sum id (\<lambda>(h, p, sm). (p, Tags sm, objs h 0))
      (NewSubmetric empty_store ''http_req_duration{status:200,method:GET}'')
   = Inr (''http_req_duration'', Some 0,
          \<lparr>tags = Some [(''status'', ''200''), (''method'', ''GET'')], json = None\<rparr>)"
  "map_sum id (\<lambda>(h, p, sm). (p, Tags sm, objs h 0))
      (NewSubmetric empty_store ''m{bad}'')
   = Inr (''m'', Some 0, \<lparr>tags = Some [(''bad'', [])], json = None\<rparr>)"
  "map_sum id (\<lambda>(h, p, sm). (p, Tags sm, objs h 0))
      (NewSubmetric empty_store ''m{ a : 1,a:2,,b,  }'')
   = Inr (''m'', Some 0, \<lparr>tags = Some [(''a'', ''2''), (''b'', []), ([], [])], json = None\<rparr>)"
  by code_simp+

text \<open>
  C4: the trimming of key and value misses a quoting character that stands inside
  surrounding white space. On the input \<open>m{a: "b"}\<close> the value of the clause is a blank
  and \<open>b\<close> in double quotes. \<^verbatim>\<open>strings.Trim\<close> runs first and removes the closing quote only,
  as the text starts with the blank; \<^verbatim>\<open>strings.TrimSpace\<close> then removes the blank. The tag
  \<open>a\<close> is stored with the value of two bytes, the opening quote and \<open>b\<close>, where the claim has
  the quoting characters and the white space trimmed, which leaves \<open>b\<close>.
\<close>

theorem NewSubmetric_quote_inside_space:
  "map_sum id (\<lambda>(h, p, sm). (p, Tags sm, objs h 0))
      (NewSubmetric empty_store (''m{a: '' @ [dquote] @ ''b'' @ [dquote] @ ''}''))
   = Inr (''m'', Some 0, \<lparr>tags = Some [(''a'', [dquote, CHR ''b''])], json = None\<rparr>)"
  by code_simp

text \<open>
  C5, as the code has it: for an input with no opening brace, \<^verbatim>\<open>NewSubmetric\<close> does not
  panic and allocates nothing; the parent name it returns is the input without its
  closing brace, if it ends in one, and else the input; the submetric has the input as
  its name, an empty parent, an empty suffix and no tag set.
\<close>

theorem NewSubmetric_no_brace:
  assumes "CHR ''{'' \<notin> set name"
  shows "NewSubmetric h name =
     Inr (h, (if name \<noteq> [] \<and> last name = CHR ''}'' then butlast name else name),
          \<lparr>Submetric.Name = name, Parent = [], Suffix = [], Tags = None, Metric = None\<rparr>)"
  using assms by (rule NewSubmetric_plain)

theorem NewSubmetric_no_brace_witness:
  "CHR ''{'' \<notin> set ''errors''
   \<and> NewSubmetric empty_store ''errors'' =
       Inr (empty_store, ''errors'',
            \<lparr>Submetric.Name = ''errors'', Parent = [], Suffix = [], Tags = None, Metric = None\<rparr>)"
  using NewSubmetric_no_brace [of "''errors''" empty_store] by simp

text \<open>
  The claim as written fails: the input \<open>errors}\<close> has no opening brace; the parent name
  returned is \<open>errors\<close>, and the parent of the submetric is empty. Neither is the input.
\<close>

theorem NewSubmetric_no_brace_counterexample:
  "NewSubmetric empty_store ''errors}'' =
     Inr (empty_store, ''errors'',
          \<lparr>Submetric.Name = ''errors}'', Parent = [], Suffix = [], Tags = None, Metric = None\<rparr>)"
  using NewSubmetric_plain [of "''errors}''" empty_store] by simp

section \<open>Properties of metric construction\<close>

text \<open>
  C8: \<^verbatim>\<open>New\<close> returns no metric exactly when the type is none of the four declared
  constants. A metric it returns has the name and the type given, the sink of its type,
  and as value type the first optional argument, or \<open>Default\<close> when there is none.
\<close>

theorem New_result:
  "(New name typ t = None \<longleftrightarrow> typ \<notin> {Counter, Gauge, Trend, Rate})
   \<and> (\<forall>m. New name typ t = Some m \<longrightarrow>
         Metric.Name m = name \<and> Type m = typ
         \<and> (typ = Counter \<longrightarrow> Sink m = CounterSink)
         \<and> (typ = Gauge \<longrightarrow> Sink m = GaugeSink)
         \<and> (typ = Trend \<longrightarrow> Sink m = TrendSink)
         \<and> (typ = Rate \<longrightarrow> Sink m = RateSink)
         \<and> (t = [] \<longrightarrow> Contains m = Default)
         \<and> (t \<noteq> [] \<longrightarrow> Contains m = hd t))"
  by (auto simp: New_def Let_def enum_consts hd_conv_nth)

theorem New_result_witness:
  "New ''vus'' Gauge [] = Some \<lparr>Metric.Name = ''vus'', Type = Gauge, Contains = Default, Sink = GaugeSink\<rparr>
   \<and> New ''vus'' 4 [] = None
   \<and> New ''rtt'' Trend [Time] = Some \<lparr>Metric.Name = ''rtt'', Type = Trend, Contains = Time, Sink = TrendSink\<rparr>"
  using New_result [of "''vus''" Gauge "[]"] New_result [of "''vus''" 4 "[]"]
    New_result [of "''rtt''" Trend "[Time]"]
  by (simp add: New_def enum_consts)

section \<open>Properties of HumanizeValue\<close>

text \<open>The value the specification lists as a test case, \<open>0.12345\<close>, is rendered as the
  specification says.\<close>

lemma HumanizeValue_rate_listed_input:
  "HumanizeValue ext
     (Some \<lparr>Metric.Name = ''checks'', Type = Rate, Contains = Default, Sink = RateSink\<rparr>)
     (round64 (12345 / 100000)) = Inr ''12.34%''"
  by code_simp

text \<open>
  C9: on a rate, \<^verbatim>\<open>HumanizeValue\<close> does not always cut the percentage off after two
  decimal places. The \<^verbatim>\<open>float64\<close> nearest to \<open>0.0003\<close> is the number
  \<open>5534023222112865 / 2 ^ 64\<close>, which is below \<open>0.0003\<close>: its percentage cut off after two
  places is \<open>0.02\<close>. The two products round up, to the \<^verbatim>\<open>float64\<close> nearest to \<open>0.03\<close> and
  then to \<open>3\<close>, and the result is \<open>0.03%\<close>. Read on the decimal number instead of the
  stored one, the rendering fails for \<open>0.29\<close>: the products stay below \<open>2900\<close>, and the
  result is \<open>28.99%\<close>, not \<open>29.00%\<close>.
\<close>

theorem HumanizeValue_rate_not_truncated:
  "round64 (3 / 10000) = Finite (5534023222112865 / 2 ^ 64)
   \<and> HumanizeValue ext
        (Some \<lparr>Metric.Name = ''checks'', Type = Rate, Contains = Default, Sink = RateSink\<rparr>)
        (Finite (5534023222112865 / 2 ^ 64)) = Inr ''0.03%''
   \<and> spec_truncated_percent (5534023222112865 / 2 ^ 64) = ''0.02%''
   \<and> HumanizeValue ext
        (Some \<lparr>Metric.Name = ''checks'', Type = Rate, Contains = Default, Sink = RateSink\<rparr>)
        (round64 (29 / 100)) = Inr ''28.99%''
   \<and> spec_truncated_percent (29 / 100) = ''29.00%''"
  by (intro conjI; code_simp)

end
